theory Spec2Isabelle
  imports Complex_Main
begin

section \<open>JavaScript values\<close>

text \<open>
  The server in \<^verbatim>\<open>src/index.js\<close> computes on JavaScript values: request bodies parsed
  from JSON, the objects handed to the Stripe client, and the objects handed to
  \<^verbatim>\<open>res.json\<close>. A Number is an IEEE 754 binary64 value: the finite ones are the
  rationals they denote (the two zeros are identified: no expression of the server tells
  them apart), next to the two infinities and NaN.
\<close>

datatype number = Fin rat | PosInf | NegInf | NaN

subsection \<open>Rounding to binary64\<close>

text \<open>
  \<open>bitlen_int n\<close> is the number of binary digits of a positive \<open>n\<close>, \<open>pow2 e\<close> is \<open>2\<close> to the
  power \<open>e\<close> for an integer \<open>e\<close>, and \<open>binade x\<close>, for a positive \<open>x\<close>, is the exponent
  \<open>e\<close> with \<open>2^e \<le> x < 2^(e+1)\<close>.
\<close>

function bitlen_int :: "int \<Rightarrow> int" where
  "bitlen_int n = (if n \<le> 0 then 0 else 1 + bitlen_int (n div 2))"
  by pat_completeness auto
termination
  by (relation "measure nat") auto

declare bitlen_int.simps [simp del]

definition pow2 :: "int \<Rightarrow> rat" where
  "pow2 e = (if 0 \<le> e then 2 ^ nat e else 1 / 2 ^ nat (- e))"

definition binade :: "rat \<Rightarrow> int" where
  "binade x =
     (let (p, q) = quotient_of x;
          e = bitlen_int p - bitlen_int q
      in if pow2 e \<le> x then e else e - 1)"

text \<open>Rounding a rational to the nearest integer, a tie going to the even one.\<close>

definition round_half_even :: "rat \<Rightarrow> int" where
  "round_half_even x =
     (let f = \<lfloor>x\<rfloor>; d = x - of_int f
      in if d < 1 / 2 then f
         else if 1 / 2 < d then f + 1
         else if even f then f else f + 1)"

text \<open>
  \<open>to_double x\<close> is the binary64 value nearest to the real number \<open>x\<close> (round to nearest,
  ties to even): 53 significant bits, the exponent of the last place never below
  \<open>-1074\<close> (subnormals), and an infinity when the rounded value reaches \<open>2^1024\<close>
  (its binade is above the largest one, \<open>1023\<close>). It is
  the value JSON.parse gives a decimal literal and the rounding every arithmetic
  operation on Numbers ends with.
\<close>

definition to_double :: "rat \<Rightarrow> number" where
  "to_double x =
     (if x = 0 then Fin 0
      else
        let a = \<bar>x\<bar>;
            e = max (binade a) (- 1022);
            q = pow2 (e - 52);
            r = of_int (round_half_even (a / q)) * q
        in if 1024 \<le> binade r then (if 0 < x then PosInf else NegInf)
           else Fin (if 0 < x then r else - r))"

text \<open>
  The Number that JSON.parse gives the decimal literal with the digits \<open>d\<close>, the last
  \<open>k\<close> of them after the point: \<open>json_number 1999 2\<close> is the Number of \<^verbatim>\<open>19.99\<close>.
\<close>

definition json_number :: "int \<Rightarrow> nat \<Rightarrow> number" where
  "json_number d k = to_double (of_int d / 10 ^ k)"

subsection \<open>The operations the server applies to Numbers\<close>

text \<open>The operator \<^verbatim>\<open>*\<close> on two Numbers.\<close>

fun js_mul :: "number \<Rightarrow> number \<Rightarrow> number" where
  "js_mul NaN y = NaN"
| "js_mul x NaN = NaN"
| "js_mul (Fin a) (Fin b) = to_double (a * b)"
| "js_mul (Fin a) PosInf = (if a = 0 then NaN else if 0 < a then PosInf else NegInf)"
| "js_mul (Fin a) NegInf = (if a = 0 then NaN else if 0 < a then NegInf else PosInf)"
| "js_mul PosInf (Fin b) = (if b = 0 then NaN else if 0 < b then PosInf else NegInf)"
| "js_mul NegInf (Fin b) = (if b = 0 then NaN else if 0 < b then NegInf else PosInf)"
| "js_mul PosInf PosInf = PosInf"
| "js_mul PosInf NegInf = NegInf"
| "js_mul NegInf PosInf = NegInf"
| "js_mul NegInf NegInf = PosInf"

text \<open>
  \<^verbatim>\<open>Math.round\<close>: the integer nearest to the argument, a tie going towards
  \<open>+\<infinity>\<close>; the infinities and NaN are returned as they are.
\<close>

fun math_round :: "number \<Rightarrow> number" where
  "math_round (Fin x) = Fin (of_int \<lfloor>x + 1 / 2\<rfloor>)"
| "math_round n = n"

subsection \<open>Values, truthiness and the operator \<^verbatim>\<open>||\<close>\<close>

datatype jsval =
    JUndefined
  | JNull
  | JBool bool
  | JNum number
  | JStr string
  | JArr "jsval list"
  | JObj "(string \<times> jsval) list"

fun truthy :: "jsval \<Rightarrow> bool" where
  "truthy JUndefined = False"
| "truthy JNull = False"
| "truthy (JBool b) = b"
| "truthy (JNum n) = (n \<noteq> Fin 0 \<and> n \<noteq> NaN)"
| "truthy (JStr s) = (s \<noteq> [])"
| "truthy (JArr xs) = True"
| "truthy (JObj kvs) = True"

definition js_or :: "jsval \<Rightarrow> jsval \<Rightarrow> jsval" where
  "js_or a b = (if truthy a then a else b)"

text \<open>Reading the property \<open>k\<close> of an object; a missing property reads as undefined.\<close>

fun field :: "string \<Rightarrow> jsval \<Rightarrow> jsval" where
  "field k (JObj kvs) = (case map_of kvs k of Some v \<Rightarrow> v | None \<Rightarrow> JUndefined)"
| "field k v = JUndefined"

section \<open>The Stripe client\<close>

text \<open>
  The client built by \<^verbatim>\<open>require('stripe')(key)\<close> is outside the repository. The server
  uses five of its operations, each called with one argument and awaited; a call either
  returns a value or throws. The client is modelled as a function of the operation, its
  argument and the state \<open>'w\<close> of the world outside the server (Stripe's ledger, the
  network), returning the outcome and the next state. Nothing is assumed about it.
\<close>

datatype operation =
    customers_create
  | invoiceItems_create
  | invoices_create
  | paymentIntents_create
  | customers_retrieve

text \<open>What the catch block reads of a thrown error: \<^verbatim>\<open>error.message\<close> and \<^verbatim>\<open>error.type\<close>.\<close>

record thrown =
  error_message :: jsval
  error_type :: jsval

type_synonym call = "operation \<times> jsval"

type_synonym 'w client = "operation \<Rightarrow> jsval \<Rightarrow> 'w \<Rightarrow> (thrown + jsval) \<times> 'w"

text \<open>
  A handler runs on the state of the world paired with the list of the calls issued to the
  client so far, oldest first. \<open>await_call\<close> issues one call and records it.
\<close>

definition await_call ::
  "'w client \<Rightarrow> operation \<Rightarrow> jsval \<Rightarrow> 'w \<times> call list \<Rightarrow> (thrown + jsval) \<times> ('w \<times> call list)" where
  "await_call c opn arg s =
     (case c opn arg (fst s) of (r, w') \<Rightarrow> (r, (w', snd s @ [(opn, arg)])))"

section \<open>Requests and responses\<close>

text \<open>
  The body of a POST /mcp request, at the shape the handler destructures: \<^verbatim>\<open>method\<close>
  and \<^verbatim>\<open>params\<close>, and of \<^verbatim>\<open>params\<close> the properties the handler reads. A property the
  handler forwards or tests with \<^verbatim>\<open>||\<close> is any value (undefined when the body does
  not have it). The two amounts are operands of \<^verbatim>\<open>*\<close>, which works on Numbers: the
  model takes the Number (NaN for a missing amount, as \<^verbatim>\<open>undefined * 100\<close> is NaN).
  \<^verbatim>\<open>items\<close> is \<open>None\<close> when \<^verbatim>\<open>params.items\<close> is missing or falsy and the array of
  its entries otherwise. Bodies of another shape are not in the model: items that are not
  an array of objects, and amounts that are not Numbers (strings, arrays and objects go
  through ToNumber first).

  The body may come without \<^verbatim>\<open>params\<close>, or with \<^verbatim>\<open>params: null\<close>. Then
  \<^verbatim>\<open>params\<close> is undefined or null, and reading a property of it throws a TypeError.
  So \<^verbatim>\<open>params\<close> of a body is \<open>Inl\<close> of which of the two it is, or \<open>Inr\<close> of the
  properties. (A \<^verbatim>\<open>params\<close> that is a number, a string, a boolean or an array has
  none of the properties the handler reads: it is the record with every property
  undefined.)
\<close>

datatype nullish = IsUndefined | IsNull

record item =
  item_amount :: number
  item_description :: jsval

record params =
  email :: jsval
  description :: jsval
  items :: "item list option"
  customer_id :: jsval
  currency :: jsval
  amount :: number
  payment_method :: jsval

record mcp_body =
  "method" :: jsval
  params :: "nullish + params"

text \<open>
  The text of the message of that TypeError is the engine's own and is not in the source:
  the model takes it as a function of the value read from (undefined or null) and of the
  name of the property. A TypeError has no property \<^verbatim>\<open>type\<close>.
\<close>

type_synonym engine = "nullish \<Rightarrow> string \<Rightarrow> string"

definition type_error :: "engine \<Rightarrow> nullish \<Rightarrow> string \<Rightarrow> thrown" where
  "type_error eng n k = \<lparr>error_message = JStr (eng n k), error_type = JUndefined\<rparr>"

text \<open>A response: the HTTP status and the object given to \<^verbatim>\<open>res.json\<close>.\<close>

record response =
  status :: nat
  body :: jsval

section \<open>POST /mcp\<close>

text \<open>
  The argument of \<^verbatim>\<open>stripe.invoiceItems.create\<close> for one entry of \<^verbatim>\<open>params.items\<close>
  (lines 100 to 105 of \<^verbatim>\<open>src/index.js\<close>).
\<close>

definition invoice_item_arg :: "params \<Rightarrow> item \<Rightarrow> jsval" where
  "invoice_item_arg p it =
     JObj [(''customer'', customer_id p),
           (''amount'', JNum (math_round (js_mul (item_amount it) (Fin 100)))),
           (''currency'', js_or (currency p) (JStr ''usd'')),
           (''description'', item_description it)]"

text \<open>
  The loop \<^verbatim>\<open>for (const item of params.items || [])\<close>: one awaited call per entry, in
  list order; a call that throws leaves the loop with the error.
\<close>

fun create_invoice_items ::
  "'w client \<Rightarrow> params \<Rightarrow> item list \<Rightarrow> 'w \<times> call list \<Rightarrow> (thrown + unit) \<times> ('w \<times> call list)" where
  "create_invoice_items c p [] s = (Inr (), s)"
| "create_invoice_items c p (it # its) s =
     (case await_call c invoiceItems_create (invoice_item_arg p it) s of
        (Inl e, s') \<Rightarrow> (Inl e, s')
      | (Inr r, s') \<Rightarrow> create_invoice_items c p its s')"

definition invoice_arg :: "params \<Rightarrow> jsval" where
  "invoice_arg p =
     JObj [(''customer'', customer_id p),
           (''collection_method'', JStr ''send_invoice''),
           (''days_until_due'', JNum (Fin 30))]"

definition customer_arg :: "params \<Rightarrow> jsval" where
  "customer_arg p =
     JObj [(''email'', email p),
           (''description'', js_or (description p) (JStr ''Created via MCP''))]"

definition payment_intent_arg :: "params \<Rightarrow> jsval" where
  "payment_intent_arg p =
     JObj [(''amount'', JNum (math_round (js_mul (amount p) (Fin 100)))),
           (''currency'', js_or (currency p) (JStr ''usd'')),
           (''payment_method'', payment_method p),
           (''customer'', customer_id p),
           (''confirmation_method'', JStr ''manual''),
           (''confirm'', JBool True),
           (''return_url'', JStr ''https://your-website.com/return'')]"

definition available_methods :: "string list" where
  "available_methods =
     [''create_customer'', ''create_invoice'', ''process_payment'', ''retrieve_customer'']"

text \<open>
  The first property of \<^verbatim>\<open>params\<close> a branch of the switch reads, \<open>k\<close>: the read throws
  when \<^verbatim>\<open>params\<close> is undefined or null, before any call is issued.
\<close>

definition read_params :: "engine \<Rightarrow> mcp_body \<Rightarrow> string \<Rightarrow> thrown + params" where
  "read_params eng req k =
     (case params req of Inl n \<Rightarrow> Inl (type_error eng n k) | Inr p \<Rightarrow> Inr p)"

text \<open>
  The body of the \<^verbatim>\<open>try\<close> block (lines 87 to 138): the switch on \<^verbatim>\<open>method\<close>, which
  compares with \<^verbatim>\<open>===\<close>. The result is \<open>Inl\<close> of the error when a property read or a
  call throws and \<open>Inr\<close> of the response otherwise. The default branch reads nothing of
  \<^verbatim>\<open>params\<close>.
\<close>

definition dispatch ::
  "engine \<Rightarrow> 'w client \<Rightarrow> mcp_body \<Rightarrow> 'w \<times> call list \<Rightarrow>
     (thrown + response) \<times> ('w \<times> call list)" where
  "dispatch eng c req s =
     (if method req = JStr ''create_customer'' then
        (case read_params eng req ''email'' of
           Inl e \<Rightarrow> (Inl e, s)
         | Inr p \<Rightarrow>
             (case await_call c customers_create (customer_arg p) s of
                (Inl e, s') \<Rightarrow> (Inl e, s')
              | (Inr customer, s') \<Rightarrow>
                  (Inr \<lparr>status = 200,
                        body = JObj [(''success'', JBool True), (''customer'', customer)]\<rparr>, s')))
      else if method req = JStr ''create_invoice'' then
        (case read_params eng req ''items'' of
           Inl e \<Rightarrow> (Inl e, s)
         | Inr p \<Rightarrow>
             (case create_invoice_items c p (case items p of Some xs \<Rightarrow> xs | None \<Rightarrow> []) s of
                (Inl e, s') \<Rightarrow> (Inl e, s')
              | (Inr u, s') \<Rightarrow>
                  (case await_call c invoices_create (invoice_arg p) s' of
                     (Inl e, s'') \<Rightarrow> (Inl e, s'')
                   | (Inr invoice, s'') \<Rightarrow>
                       (Inr \<lparr>status = 200,
                             body = JObj [(''success'', JBool True), (''invoice'', invoice)]\<rparr>,
                        s''))))
      else if method req = JStr ''process_payment'' then
        (case read_params eng req ''amount'' of
           Inl e \<Rightarrow> (Inl e, s)
         | Inr p \<Rightarrow>
             (case await_call c paymentIntents_create (payment_intent_arg p) s of
                (Inl e, s') \<Rightarrow> (Inl e, s')
              | (Inr paymentIntent, s') \<Rightarrow>
                  (Inr \<lparr>status = 200,
                        body = JObj [(''success'', JBool True),
                                     (''paymentIntent'', paymentIntent)]\<rparr>, s')))
      else if method req = JStr ''retrieve_customer'' then
        (case read_params eng req ''customer_id'' of
           Inl e \<Rightarrow> (Inl e, s)
         | Inr p \<Rightarrow>
             (case await_call c customers_retrieve (customer_id p) s of
                (Inl e, s') \<Rightarrow> (Inl e, s')
              | (Inr retrievedCustomer, s') \<Rightarrow>
                  (Inr \<lparr>status = 200,
                        body = JObj [(''success'', JBool True),
                                     (''customer'', retrievedCustomer)]\<rparr>, s')))
      else
        (Inr \<lparr>status = 400,
              body = JObj [(''error'', JStr ''Unknown method''),
                           (''available_methods'', JArr (map JStr available_methods))]\<rparr>, s))"

section \<open>The server\<close>

text \<open>
  The variables of the process the handlers read: \<^verbatim>\<open>process.env\<close> (a variable is a
  string or missing) and the two globals \<^verbatim>\<open>stripe\<close> and \<^verbatim>\<open>stripeError\<close>, assigned
  at startup only. No handler assigns any of them, so the handlers take the server and do
  not return it.
\<close>

record environment =
  NODE_ENV :: "string option"
  PORT :: "string option"
  STRIPE_SECRET_KEY :: "string option"

record 'w server =
  env :: environment
  stripe :: "'w client option"
  stripeError :: jsval

text \<open>Truthiness of an environment variable, and the variable as a value.\<close>

definition env_truthy :: "string option \<Rightarrow> bool" where
  "env_truthy v = (case v of None \<Rightarrow> False | Some s \<Rightarrow> s \<noteq> [])"

definition env_value :: "string option \<Rightarrow> jsval" where
  "env_value v = (case v of None \<Rightarrow> JUndefined | Some s \<Rightarrow> JStr s)"

text \<open>
  Startup (lines 46 to 60). \<open>require_stripe\<close> stands for \<^verbatim>\<open>require('stripe')(key)\<close>,
  which returns the client or throws; it is reached when the variable is truthy, that is
  set and not the empty string.
\<close>

definition startup :: "environment \<Rightarrow> (string \<Rightarrow> thrown + 'w client) \<Rightarrow> 'w server" where
  "startup e require_stripe =
     (case STRIPE_SECRET_KEY e of
        None \<Rightarrow> \<lparr>env = e, stripe = None, stripeError = JNull\<rparr>
      | Some key \<Rightarrow>
          if key \<noteq> [] then
            (case require_stripe key of
               Inr c \<Rightarrow> \<lparr>env = e, stripe = Some c, stripeError = JNull\<rparr>
             | Inl err \<Rightarrow> \<lparr>env = e, stripe = None, stripeError = error_message err\<rparr>)
          else \<lparr>env = e, stripe = None, stripeError = JNull\<rparr>)"

text \<open>
  The handler of POST /mcp (lines 79 to 146): the guard on \<^verbatim>\<open>stripe\<close>, then the
  \<^verbatim>\<open>try\<close> block, then the \<^verbatim>\<open>catch\<close> block, which answers every error thrown in
  the \<^verbatim>\<open>try\<close> block, the client's and the engine's alike. It returns the response, the
  next state of the world and the calls it issued.
\<close>

definition not_configured :: response where
  "not_configured =
     \<lparr>status = 500,
      body = JObj [(''error'',
        JStr ''Stripe not configured - STRIPE_SECRET_KEY environment variable is required'')]\<rparr>"

definition mcp ::
  "engine \<Rightarrow> 'w server \<Rightarrow> mcp_body \<Rightarrow> 'w \<Rightarrow> response \<times> ('w \<times> call list)" where
  "mcp eng srv req w =
     (case stripe srv of
        None \<Rightarrow> (not_configured, (w, []))
      | Some c \<Rightarrow>
          (case dispatch eng c req (w, []) of
             (Inr resp, s) \<Rightarrow> (resp, s)
           | (Inl err, s) \<Rightarrow>
               (\<lparr>status = 500,
                 body = JObj [(''error'', error_message err),
                              (''type'', js_or (error_type err) (JStr ''api_error''))]\<rparr>, s)))"

text \<open>
  The handlers of GET /health (lines 29 to 43) and GET / (lines 63 to 76). The time, the
  uptime and the memory figures are readings of the runtime, taken with the request.
\<close>

record probe =
  timestamp :: string
  uptime :: number
  memory :: jsval

definition health :: "'w server \<Rightarrow> probe \<Rightarrow> response" where
  "health srv pr =
     \<lparr>status = 200,
      body = JObj [(''status'', JStr ''healthy''),
                   (''timestamp'', JStr (timestamp pr)),
                   (''uptime'', JNum (uptime pr)),
                   (''memory'', memory pr),
                   (''env'', JObj [(''nodeEnv'', env_value (NODE_ENV (env srv))),
                                   (''port'', env_value (PORT (env srv))),
                                   (''stripeConfigured'',
                                    JBool (env_truthy (STRIPE_SECRET_KEY (env srv))))])]\<rparr>"

definition root :: "'w server \<Rightarrow> response" where
  "root srv =
     \<lparr>status = 200,
      body = JObj [(''name'', JStr ''Stripe MCP Server''),
                   (''version'', JStr ''1.0.0''),
                   (''description'',
                    JStr ''Model Context Protocol server for Stripe API integration''),
                   (''tools'', JArr [JStr ''create_customer'', JStr ''create_invoice'',
                                     JStr ''process_payment'', JStr ''retrieve_customer'']),
                   (''status'', JStr (if stripe srv \<noteq> None then ''ready''
                                      else ''stripe_not_configured''))]\<rparr>"

text \<open>The three routes, and the server answering a list of requests one after the other.\<close>

datatype http_request = GET_health probe | GET_root | POST_mcp mcp_body

fun route :: "engine \<Rightarrow> 'w server \<Rightarrow> http_request \<Rightarrow> 'w \<Rightarrow> response \<times> 'w" where
  "route eng srv (GET_health pr) w = (health srv pr, w)"
| "route eng srv GET_root w = (root srv, w)"
| "route eng srv (POST_mcp req) w =
     (case mcp eng srv req w of (resp, (w', calls)) \<Rightarrow> (resp, w'))"

fun serve ::
  "engine \<Rightarrow> 'w server \<Rightarrow> http_request list \<Rightarrow> 'w \<Rightarrow> response list \<times> 'w" where
  "serve eng srv [] w = ([], w)"
| "serve eng srv (r # rs) w =
     (case route eng srv r w of
        (resp, w') \<Rightarrow>
          (case serve eng srv rs w' of (resps, w'') \<Rightarrow> (resp # resps, w'')))"

section \<open>Test doubles\<close>

text \<open>
  Concrete inputs for the closed theorems below. The scripted client takes as the state
  of the world the list of the outcomes of the calls to come: each call consumes the first
  one, and returns null once the script is used up.
\<close>

fun scripted_client :: "(thrown + jsval) list client" where
  "scripted_client opn arg [] = (Inr JNull, [])"
| "scripted_client opn arg (r # rs) = (r, rs)"

definition require_ok :: "string \<Rightarrow> thrown + (thrown + jsval) list client" where
  "require_ok key = Inr scripted_client"

definition require_throws :: "string \<Rightarrow> thrown + (thrown + jsval) list client" where
  "require_throws key =
     Inl \<lparr>error_message = JStr ''Cannot find module stripe'', error_type = JUndefined\<rparr>"

definition card_declined :: thrown where
  "card_declined =
     \<lparr>error_message = JStr ''Your card was declined.'', error_type = JStr ''StripeCardError''\<rparr>"

text \<open>The messages of V8, the engine of Node.js.\<close>

definition v8 :: engine where
  "v8 n k =
     ''Cannot read properties of '' @ (case n of IsUndefined \<Rightarrow> ''undefined'' | IsNull \<Rightarrow> ''null'')
       @ '' (reading '' @ [CHR 0x27] @ k @ [CHR 0x27] @ '')''"

definition no_params :: params where
  "no_params =
     \<lparr>email = JUndefined, description = JUndefined, items = None, customer_id = JUndefined,
      currency = JUndefined, amount = NaN, payment_method = JUndefined\<rparr>"

definition no_env :: environment where
  "no_env = \<lparr>NODE_ENV = None, PORT = None, STRIPE_SECRET_KEY = None\<rparr>"

definition configured :: "(thrown + jsval) list server" where
  "configured = startup (no_env\<lparr>STRIPE_SECRET_KEY := Some ''sk_test_1''\<rparr>) require_ok"

definition unconfigured :: "(thrown + jsval) list server" where
  "unconfigured = startup no_env require_ok"

definition probe0 :: probe where
  "probe0 = \<lparr>timestamp = ''2025-01-01T00:00:00.000Z'', uptime = Fin 1, memory = JObj []\<rparr>"

definition broken :: "(thrown + jsval) list server" where
  "broken = startup (no_env\<lparr>STRIPE_SECRET_KEY := Some ''sk_test_1''\<rparr>) require_throws"

section \<open>Facts about the model\<close>

lemma stripe_configured: "stripe configured = Some scripted_client"
  by (simp add: configured_def startup_def no_env_def require_ok_def)

lemma stripe_unconfigured: "stripe unconfigured = None"
  by (simp add: unconfigured_def startup_def no_env_def)

subsection \<open>Startup\<close>

lemma env_startup: "env (startup e rq) = e"
  by (simp add: startup_def split: option.splits sum.splits)

lemma stripe_startup:
  "(stripe (startup e rq) \<noteq> None) =
     (\<exists>key c. STRIPE_SECRET_KEY e = Some key \<and> key \<noteq> [] \<and> rq key = Inr c)"
  by (auto simp: startup_def split: option.splits sum.splits)

subsection \<open>Rounding to binary64\<close>

text \<open>
  \<open>binade\<close> is the exponent it is meant to be, the significand \<open>to_double\<close> rounds to
  has at most 53 bits (or is \<open>2^53\<close>, the next power of two), and a finite result is
  within half a unit in the last place of the argument.
\<close>

lemma pow2_pos: "0 < pow2 e"
  by (simp add: pow2_def)

lemma pow2_power_int: "pow2 e = 2 powi e"
  by (simp add: pow2_def power_int_def power_one_over)

lemma pow2_add: "pow2 (a + b) = pow2 a * pow2 b"
  by (simp add: pow2_power_int power_int_add)

lemma pow2_of_nat: "pow2 (int k) = 2 ^ k"
  by (simp add: pow2_def)

lemma bitlen_int_bounds:
  "0 < n \<Longrightarrow> 1 \<le> bitlen_int n \<and> 2 ^ nat (bitlen_int n - 1) \<le> n \<and> n < 2 ^ nat (bitlen_int n)"
proof (induction n rule: bitlen_int.induct)
  case (1 n)
  show ?case
  proof (cases "n = 1")
    case True
    then show ?thesis by (simp add: bitlen_int.simps)
  next
    case False
    with "1.prems" have h: "0 < n div 2" by simp
    from "1.prems" have nle: "\<not> n \<le> 0" by simp
    from "1.IH" [OF nle h] have ih: "1 \<le> bitlen_int (n div 2)"
      "2 ^ nat (bitlen_int (n div 2) - 1) \<le> n div 2" "n div 2 < 2 ^ nat (bitlen_int (n div 2))"
      by auto
    define k where "k = bitlen_int (n div 2)"
    have b: "bitlen_int n = 1 + k"
      using nle by (subst bitlen_int.simps) (simp add: k_def)
    have k1: "1 \<le> k" using ih(1) by (simp add: k_def)
    have e: "(2::int) ^ nat k = 2 * 2 ^ nat (k - 1)"
      using k1 by (metis Suc_nat_eq_nat_zadd1 add.commute diff_add_cancel diff_ge_0_iff_ge power_Suc)
    have lo: "(2::int) ^ nat k \<le> n"
      using ih(2) e by (simp add: k_def)
    have hi: "n < 2 * 2 ^ nat k"
      using ih(3) by (simp add: k_def)
    from b k1 lo hi show ?thesis
      by (simp add: nat_add_distrib)
  qed
qed


lemma quotient_of_pos:
  assumes "0 < x" and "quotient_of x = (p, q)"
  shows "0 < p" and "0 < q" and "x = of_int p / of_int q"
proof -
  show q: "0 < q" using assms(2) by (rule quotient_of_denom_pos)
  show x: "x = of_int p / of_int q" using assms(2) by (rule quotient_of_div)
  from assms(1) x q show "0 < p" by (simp add: zero_less_divide_iff)
qed

lemma binade_bounds:
  assumes "0 < x"
  shows "pow2 (binade x) \<le> x \<and> x < pow2 (binade x + 1)"
proof -
  obtain p q where pq: "quotient_of x = (p, q)" by (cases "quotient_of x") auto
  from quotient_of_pos [OF assms pq] have p: "0 < p" and q: "0 < q"
    and x: "x = of_int p / of_int q" by auto
  define a where "a = bitlen_int p"
  define b where "b = bitlen_int q"
  from bitlen_int_bounds [OF p] have a: "1 \<le> a" "2 ^ nat (a - 1) \<le> p" "p < 2 ^ nat a"
    by (auto simp: a_def)
  from bitlen_int_bounds [OF q] have b: "1 \<le> b" "2 ^ nat (b - 1) \<le> q" "q < 2 ^ nat b"
    by (auto simp: b_def)
  have pa1: "pow2 (a - 1) \<le> of_int p"
  proof -
    have "(of_int (2 ^ nat (a - 1)) :: rat) \<le> of_int p"
      using a(2) by (simp only: of_int_le_iff)
    with a(1) show ?thesis by (simp add: pow2_def)
  qed
  have pa2: "of_int p < pow2 a"
  proof -
    have "(of_int p :: rat) < of_int (2 ^ nat a)"
      using a(3) by (simp only: of_int_less_iff)
    with a(1) show ?thesis by (simp add: pow2_def)
  qed
  have qb1: "pow2 (b - 1) \<le> of_int q"
  proof -
    have "(of_int (2 ^ nat (b - 1)) :: rat) \<le> of_int q"
      using b(2) by (simp only: of_int_le_iff)
    with b(1) show ?thesis by (simp add: pow2_def)
  qed
  have qb2: "of_int q < pow2 b"
  proof -
    have "(of_int q :: rat) < of_int (2 ^ nat b)"
      using b(3) by (simp only: of_int_less_iff)
    with b(1) show ?thesis by (simp add: pow2_def)
  qed
  have qr: "(0::rat) < of_int q" and pr: "(0::rat) < of_int p"
    using p q by simp_all
  have up: "x < pow2 (a - b + 1)"
  proof -
    have "x < pow2 a / of_int q"
      using x pa2 qr by (simp add: divide_strict_right_mono)
    also have "\<dots> \<le> pow2 a / pow2 (b - 1)"
      using qb1 pow2_pos [of a] pow2_pos [of "b - 1"] by (simp add: divide_left_mono)
    also have "\<dots> = pow2 (a - b + 1)"
      by (simp add: pow2_power_int power_int_diff power_int_add)
    finally show ?thesis .
  qed
  have lo: "pow2 (a - b - 1) < x"
  proof -
    have "pow2 (a - b - 1) = pow2 (a - 1) / pow2 b"
      by (simp add: pow2_power_int power_int_diff)
    also have "\<dots> < pow2 (a - 1) / of_int q"
      using qb2 qr pow2_pos [of "a - 1"] pow2_pos [of b] by (simp add: divide_strict_left_mono)
    also have "\<dots> \<le> x"
      using x pa1 qr by (simp add: divide_right_mono)
    finally show ?thesis .
  qed
  have bin: "binade x = (if pow2 (a - b) \<le> x then a - b else a - b - 1)"
    using pq by (simp add: binade_def a_def b_def Let_def)
  show ?thesis
  proof (cases "pow2 (a - b) \<le> x")
    case True
    with bin up show ?thesis by simp
  next
    case False
    with bin lo show ?thesis by simp
  qed
qed


lemma round_half_even_error: "\<bar>of_int (round_half_even y) - y\<bar> \<le> 1 / 2"
proof -
  have "of_int \<lfloor>y\<rfloor> \<le> y" "y < of_int \<lfloor>y\<rfloor> + 1" by linarith+
  then show ?thesis
    by (auto simp: round_half_even_def Let_def abs_le_iff)
qed

lemma to_double_error:
  assumes "x \<noteq> 0" and "to_double x = Fin y"
  shows "\<bar>y - x\<bar> \<le> pow2 (max (binade \<bar>x\<bar>) (- 1022) - 53)"
proof -
  define e where "e = max (binade \<bar>x\<bar>) (- 1022)"
  define q where "q = pow2 (e - 52)"
  define r where "r = of_int (round_half_even (\<bar>x\<bar> / q)) * q"
  have q: "0 < q" by (simp add: q_def pow2_pos)
  have y: "y = (if 0 < x then r else - r)"
    using assms by (simp add: to_double_def Let_def e_def q_def r_def split: if_splits)
  have "r - \<bar>x\<bar> = (of_int (round_half_even (\<bar>x\<bar> / q)) - \<bar>x\<bar> / q) * q"
    using q by (simp add: r_def left_diff_distrib)
  then have "\<bar>r - \<bar>x\<bar>\<bar> = \<bar>of_int (round_half_even (\<bar>x\<bar> / q)) - \<bar>x\<bar> / q\<bar> * q"
    using q by (simp add: abs_mult)
  also have "\<dots> \<le> 1 / 2 * q"
    using round_half_even_error [of "\<bar>x\<bar> / q"] q by (simp add: mult_right_mono)
  also have "\<dots> = pow2 (e - 53)"
    by (simp add: q_def pow2_power_int power_int_diff)
  finally have "\<bar>r - \<bar>x\<bar>\<bar> \<le> pow2 (e - 53)" .
  moreover have "\<bar>y - x\<bar> = \<bar>r - \<bar>x\<bar>\<bar>"
    using y assms(1) by (cases "0 < x") auto
  ultimately show ?thesis by (simp add: e_def)
qed

subsection \<open>Amounts\<close>

text \<open>
  Two values every JavaScript engine agrees on: the Number of \<^verbatim>\<open>0.1\<close>, and
  \<^verbatim>\<open>Math.round(1.005 * 100)\<close>, which is 100 since the product is 100.49999999999999.
  Then the three amounts of the specification's examples. The literal \<^verbatim>\<open>5.005\<close>
  denotes a Number a little below 5.005; its product with 100 lies nearer to 500.5 than to
  the binary64 value below it, so the product is 500.5 and \<^verbatim>\<open>Math.round\<close> gives 501.
\<close>

lemma number_0_1: "json_number 1 1 = Fin (3602879701896397 / 36028797018963968)"
  by code_simp

lemma cents_1_005: "math_round (js_mul (json_number 1005 3) (Fin 100)) = Fin 100"
  by code_simp


lemma number_5_005: "json_number 5005 3 = Fin (5635129033747333 / 1125899906842624)"
  by code_simp

lemma product_5_005: "js_mul (json_number 5005 3) (Fin 100) = Fin (1001 / 2)"
  by code_simp




lemma round_first_10_006: "js_mul (math_round (json_number 10006 3)) (Fin 100) = Fin 1000"
  by code_simp

subsection \<open>The calls a handler issues\<close>

lemma await_call_calls: "snd (snd (await_call c opn arg s)) = snd s @ [(opn, arg)]"
  by (simp add: await_call_def split: prod.splits)

text \<open>
  The loop over the items issues the calls for the first \<open>k\<close> items, in list order, for
  some \<open>k\<close>: all of them, or those up to the first call that throws.
\<close>

lemma create_invoice_items_calls:
  "\<exists>k\<le>length its. snd (snd (create_invoice_items c p its s)) =
      snd s @ map (\<lambda>it. (invoiceItems_create, invoice_item_arg p it)) (take k its)"
proof (induction its arbitrary: s)
  case Nil
  show ?case by simp
next
  case (Cons it its)
  obtain r s' where a: "await_call c invoiceItems_create (invoice_item_arg p it) s = (r, s')"
    by (cases "await_call c invoiceItems_create (invoice_item_arg p it) s") auto
  have t: "snd s' = snd s @ [(invoiceItems_create, invoice_item_arg p it)]"
    using await_call_calls [of c invoiceItems_create "invoice_item_arg p it" s] a by simp
  show ?case
  proof (cases r)
    case (Inl e)
    with a t have "snd (snd (create_invoice_items c p (it # its) s)) =
        snd s @ map (\<lambda>it. (invoiceItems_create, invoice_item_arg p it)) (take 1 (it # its))"
      by simp
    then show ?thesis by (intro exI [of _ 1]) simp
  next
    case (Inr v)
    from Cons.IH [of s'] obtain k where k: "k \<le> length its"
      "snd (snd (create_invoice_items c p its s')) =
         snd s' @ map (\<lambda>it. (invoiceItems_create, invoice_item_arg p it)) (take k its)"
      by blast
    with a t Inr have "snd (snd (create_invoice_items c p (it # its) s)) =
        snd s @ map (\<lambda>it. (invoiceItems_create, invoice_item_arg p it)) (take (Suc k) (it # its))"
      by simp
    with k(1) show ?thesis by (intro exI [of _ "Suc k"]) simp
  qed
qed

lemma create_invoice_items_set:
  assumes "x \<in> set (snd (snd (create_invoice_items c p its (w, []))))"
  shows "\<exists>it\<in>set its. x = (invoiceItems_create, invoice_item_arg p it)"
proof -
  from create_invoice_items_calls [of its c p "(w, [])"] obtain k where
    "snd (snd (create_invoice_items c p its (w, []))) =
       map (\<lambda>it. (invoiceItems_create, invoice_item_arg p it)) (take k its)"
    by auto
  with assms obtain it where "it \<in> set (take k its)" "x = (invoiceItems_create, invoice_item_arg p it)"
    by auto
  then show ?thesis by (blast dest: in_set_takeD)
qed


text \<open>
  A request for one of the four methods whose \<^verbatim>\<open>params\<close> is undefined or null ends at
  the first property read: no call is issued, and the catch block answers HTTP 500 with
  the message of the TypeError and the type \<^verbatim>\<open>api_error\<close>.
\<close>

lemma missing_params_response:
  assumes "stripe srv = Some c"
    and "params req = Inl n"
    and "(method req, k) \<in> {(JStr ''create_customer'', ''email''),
                              (JStr ''create_invoice'', ''items''),
                              (JStr ''process_payment'', ''amount''),
                              (JStr ''retrieve_customer'', ''customer_id'')}"
  shows "mcp eng srv req w =
           (\<lparr>status = 500,
             body = JObj [(''error'', JStr (eng n k)), (''type'', JStr ''api_error'')]\<rparr>,
            (w, []))"
  using assms
  by (auto simp: mcp_def dispatch_def read_params_def type_error_def js_or_def)


text \<open>
  Whichever item's call throws, the request ends there: the response is HTTP 500 with the
  message of the error, and every call issued is a call of \<^verbatim>\<open>invoiceItems.create\<close>.
\<close>

lemma item_failure_aborts:
  assumes "stripe srv = Some c"
    and "method req = JStr ''create_invoice''"
    and "params req = Inr p"
    and "create_invoice_items c p (case items p of Some xs \<Rightarrow> xs | None \<Rightarrow> []) (w, []) =
           (Inl err, s)"
  shows "mcp eng srv req w =
           (\<lparr>status = 500,
             body = JObj [(''error'', error_message err),
                          (''type'', js_or (error_type err) (JStr ''api_error''))]\<rparr>, s)"
    and "\<forall>x\<in>set (snd s). fst x = invoiceItems_create"
proof -
  show "mcp eng srv req w =
           (\<lparr>status = 500,
             body = JObj [(''error'', error_message err),
                          (''type'', js_or (error_type err) (JStr ''api_error''))]\<rparr>, s)"
    using assms by (simp add: mcp_def dispatch_def read_params_def)
  show "\<forall>x\<in>set (snd s). fst x = invoiceItems_create"
  proof
    fix x
    assume "x \<in> set (snd s)"
    with assms(4) have "x \<in> set (snd (snd (create_invoice_items c p
        (case items p of Some xs \<Rightarrow> xs | None \<Rightarrow> []) (w, []))))"
      by simp
    from create_invoice_items_set [OF this] show "fst x = invoiceItems_create"
      by auto
  qed
qed



subsection \<open>Serving requests\<close>

lemma serve_append:
  "serve eng srv (xs @ ys) w =
     (case serve eng srv xs w of (rs, w') \<Rightarrow>
        (case serve eng srv ys w' of (rs', w'') \<Rightarrow> (rs @ rs', w'')))"
  by (induction xs arbitrary: w) (auto split: prod.splits)

section \<open>The guard on the client\<close>

text \<open>
  C1, as the code has it. Whatever the request, when \<^verbatim>\<open>stripe\<close> is not set the handler
  of POST /mcp answers HTTP 500 with the body
  \<^verbatim>\<open>{error: 'Stripe not configured - STRIPE_SECRET_KEY environment variable is required'}\<close>
  and nothing else in it: the answer is the same for every request (the method name is
  not read), no call is issued to the client and the world is left as it was.
\<close>

theorem not_configured_response:
  assumes "stripe srv = None"
  shows "mcp eng srv req w =
           (\<lparr>status = 500,
             body = JObj [(''error'',
               JStr ''Stripe not configured - STRIPE_SECRET_KEY environment variable is required'')]\<rparr>,
            (w, []))"
  using assms by (simp add: mcp_def not_configured_def)

theorem not_configured_response_witness:
  "mcp v8 unconfigured \<lparr>method = JStr ''create_customer'', params = Inr no_params\<rparr>
     [Inl card_declined] =
     (\<lparr>status = 500,
       body = JObj [(''error'',
         JStr ''Stripe not configured - STRIPE_SECRET_KEY environment variable is required'')]\<rparr>,
      ([Inl card_declined], []))"
  using not_configured_response [of unconfigured v8
      "\<lparr>method = JStr ''create_customer'', params = Inr no_params\<rparr>" "[Inl card_declined]"]
  by (simp add: stripe_unconfigured)

text \<open>
  C1 as the specification words it does not hold: the message of the response is not
  \<^verbatim>\<open>payment system not configured\<close>, and the body carries no error kind.
\<close>

theorem not_configured_message_counterexample:
  "field ''error''
     (body (fst (mcp v8 unconfigured
        \<lparr>method = JStr ''create_customer'', params = Inr no_params\<rparr> [])))
     \<noteq> JStr ''payment system not configured''
   \<and> field ''type''
     (body (fst (mcp v8 unconfigured
        \<lparr>method = JStr ''create_customer'', params = Inr no_params\<rparr> [])))
     = JUndefined"
  by (simp add: mcp_def stripe_unconfigured not_configured_def)

section \<open>Invoices\<close>

text \<open>
  C2. In a create_invoice request with at least two items, when the call for the first
  item returns and the call for the second item throws, the handler has issued these two
  calls and no other (no call for a later item, no \<^verbatim>\<open>invoices.create\<close>), and it answers
  HTTP 500 with the message of the thrown error.
\<close>

theorem second_item_failure:
  assumes "stripe srv = Some c"
    and "method req = JStr ''create_invoice''"
    and "params req = Inr p"
    and "items p = Some (it1 # it2 # rest)"
    and "c invoiceItems_create (invoice_item_arg p it1) w = (Inr r1, w1)"
    and "c invoiceItems_create (invoice_item_arg p it2) w1 = (Inl err, w2)"
  shows "mcp eng srv req w =
           (\<lparr>status = 500,
             body = JObj [(''error'', error_message err),
                          (''type'', js_or (error_type err) (JStr ''api_error''))]\<rparr>,
            (w2, [(invoiceItems_create, invoice_item_arg p it1),
                  (invoiceItems_create, invoice_item_arg p it2)]))"
  using assms by (simp add: mcp_def dispatch_def read_params_def await_call_def)

theorem second_item_failure_witness:
  "mcp v8 configured
     \<lparr>method = JStr ''create_invoice'',
      params = Inr (no_params\<lparr>items :=
        Some [\<lparr>item_amount = Fin 1, item_description = JStr ''A''\<rparr>,
              \<lparr>item_amount = Fin 2, item_description = JStr ''B''\<rparr>,
              \<lparr>item_amount = Fin 3, item_description = JStr ''C''\<rparr>]\<rparr>)\<rparr>
     [Inr JNull, Inl card_declined, Inr JNull] =
   (\<lparr>status = 500,
     body = JObj [(''error'', JStr ''Your card was declined.''),
                  (''type'', JStr ''StripeCardError'')]\<rparr>,
    ([Inr JNull],
     [(invoiceItems_create,
       invoice_item_arg no_params \<lparr>item_amount = Fin 1, item_description = JStr ''A''\<rparr>),
      (invoiceItems_create,
       invoice_item_arg no_params \<lparr>item_amount = Fin 2, item_description = JStr ''B''\<rparr>)]))"
  using second_item_failure [of configured scripted_client
      "\<lparr>method = JStr ''create_invoice'',
        params = Inr (no_params\<lparr>items :=
          Some [\<lparr>item_amount = Fin 1, item_description = JStr ''A''\<rparr>,
                \<lparr>item_amount = Fin 2, item_description = JStr ''B''\<rparr>,
                \<lparr>item_amount = Fin 3, item_description = JStr ''C''\<rparr>]\<rparr>)\<rparr>"
      "no_params\<lparr>items :=
          Some [\<lparr>item_amount = Fin 1, item_description = JStr ''A''\<rparr>,
                \<lparr>item_amount = Fin 2, item_description = JStr ''B''\<rparr>,
                \<lparr>item_amount = Fin 3, item_description = JStr ''C''\<rparr>]\<rparr>"
      "\<lparr>item_amount = Fin 1, item_description = JStr ''A''\<rparr>"
      "\<lparr>item_amount = Fin 2, item_description = JStr ''B''\<rparr>"
      "[\<lparr>item_amount = Fin 3, item_description = JStr ''C''\<rparr>]"
      "[Inr JNull, Inl card_declined, Inr JNull]" JNull "[Inl card_declined, Inr JNull]"
      card_declined "[Inr JNull]" v8]
  by (simp add: stripe_configured invoice_item_arg_def no_params_def card_declined_def js_or_def)



section \<open>Unknown methods\<close>

text \<open>
  C4. With the client set, a request whose method is none of the four names is answered
  HTTP 400 with a body that lists exactly the four names, in the order of the source; no
  call is issued to the client and the world is left as it was.
\<close>

theorem unknown_method:
  assumes "stripe srv = Some c"
    and "method req \<noteq> JStr ''create_customer''"
    and "method req \<noteq> JStr ''create_invoice''"
    and "method req \<noteq> JStr ''process_payment''"
    and "method req \<noteq> JStr ''retrieve_customer''"
  shows "mcp eng srv req w =
           (\<lparr>status = 400,
             body = JObj [(''error'', JStr ''Unknown method''),
                          (''available_methods'',
                           JArr [JStr ''create_customer'', JStr ''create_invoice'',
                                 JStr ''process_payment'', JStr ''retrieve_customer''])]\<rparr>,
            (w, []))"
  using assms by (simp add: mcp_def dispatch_def available_methods_def)

theorem unknown_method_witness:
  "mcp v8 configured \<lparr>method = JStr ''does_not_exist'', params = Inl IsUndefined\<rparr>
     [Inl card_declined] =
     (\<lparr>status = 400,
       body = JObj [(''error'', JStr ''Unknown method''),
                    (''available_methods'',
                     JArr [JStr ''create_customer'', JStr ''create_invoice'',
                           JStr ''process_payment'', JStr ''retrieve_customer''])]\<rparr>,
      ([Inl card_declined], []))"
  using unknown_method [of configured scripted_client
      "\<lparr>method = JStr ''does_not_exist'', params = Inl IsUndefined\<rparr>" v8 "[Inl card_declined]"]
  by (simp add: stripe_configured)

section \<open>Payments\<close>



section \<open>GET / and GET /health\<close>

text \<open>
  C6. The status field of the response to GET / is \<^verbatim>\<open>ready\<close> when the client is set
  and \<^verbatim>\<open>stripe_not_configured\<close> otherwise; and the client is set exactly when, at
  startup, the credential was set, not empty, and \<^verbatim>\<open>require('stripe')(key)\<close> returned.
\<close>

theorem root_status:
  "field ''status'' (body (root (startup e rq))) =
     JStr (if stripe (startup e rq) \<noteq> None then ''ready'' else ''stripe_not_configured'')
   \<and> (stripe (startup e rq) \<noteq> None) =
       (\<exists>key c. STRIPE_SECRET_KEY e = Some key \<and> key \<noteq> [] \<and> rq key = Inr c)
   \<and> status (root (startup e rq)) = 200"
  using stripe_startup [of e rq] by (simp add: root_def)

theorem root_status_witness:
  "field ''status'' (body (root configured)) = JStr ''ready''
   \<and> field ''status'' (body (root broken)) = JStr ''stripe_not_configured''
   \<and> field ''status'' (body (root unconfigured)) = JStr ''stripe_not_configured''"
  using root_status [of "no_env\<lparr>STRIPE_SECRET_KEY := Some ''sk_test_1''\<rparr>" require_ok]
    root_status [of "no_env\<lparr>STRIPE_SECRET_KEY := Some ''sk_test_1''\<rparr>" require_throws]
    root_status [of no_env require_ok]
  by (simp add: configured_def broken_def unconfigured_def no_env_def require_ok_def
      require_throws_def)

text \<open>
  C7, as the code has it. Whatever requests the server has answered before, and whatever
  their outcome, the response to GET /health has the status 200 and its
  \<^verbatim>\<open>env.stripeConfigured\<close> is the truthiness of the credential in the environment: true
  exactly when STRIPE_SECRET_KEY is set and not empty. When the client is set the flag is
  true; the converse is not claimed.
\<close>

theorem health_flag:
  "status (last (fst (serve eng (startup e rq) (reqs @ [GET_health pr]) w))) = 200
   \<and> field ''stripeConfigured''
       (field ''env''
         (body (last (fst (serve eng (startup e rq) (reqs @ [GET_health pr]) w))))) =
       JBool (env_truthy (STRIPE_SECRET_KEY e))
   \<and> (stripe (startup e rq) \<noteq> None \<longrightarrow> env_truthy (STRIPE_SECRET_KEY e))"
proof -
  have "last (fst (serve eng (startup e rq) (reqs @ [GET_health pr]) w)) =
      health (startup e rq) pr"
    by (simp add: serve_append split: prod.splits)
  moreover have "stripe (startup e rq) \<noteq> None \<longrightarrow> env_truthy (STRIPE_SECRET_KEY e)"
    using stripe_startup [of e rq] by (auto simp: env_truthy_def)
  ultimately show ?thesis by (simp add: health_def env_startup)
qed

theorem health_flag_witness:
  "stripe configured \<noteq> None
   \<and> status (last (fst (serve v8 configured
      [POST_mcp \<lparr>method = JStr ''create_customer'', params = Inr no_params\<rparr>, GET_root,
       GET_health probe0] [Inl card_declined]))) = 200
   \<and> field ''stripeConfigured'' (field ''env'' (body (last (fst (serve v8 configured
      [POST_mcp \<lparr>method = JStr ''create_customer'', params = Inr no_params\<rparr>, GET_root,
       GET_health probe0] [Inl card_declined]))))) = JBool True"
  using health_flag [of v8 "no_env\<lparr>STRIPE_SECRET_KEY := Some ''sk_test_1''\<rparr>" require_ok
      "[POST_mcp \<lparr>method = JStr ''create_customer'', params = Inr no_params\<rparr>, GET_root]"
      probe0 "[Inl card_declined]", folded configured_def]
  by (simp add: stripe_configured env_truthy_def no_env_def del: serve.simps)

text \<open>
  C7 as the specification words it does not hold: the flag is not derived from the
  client. When the credential is set and \<^verbatim>\<open>require('stripe')(key)\<close> throws at startup,
  the client is not set and the flag is true.
\<close>

theorem health_flag_counterexample:
  "stripe broken = None
   \<and> field ''stripeConfigured'' (field ''env'' (body (health broken probe0))) = JBool True"
  by (simp add: broken_def startup_def no_env_def require_throws_def health_def env_truthy_def)

section \<open>Customers\<close>

text \<open>
  C8, as the code has it. For a create_customer request with the client set and
  \<^verbatim>\<open>params\<close> neither undefined nor null, the handler issues one call,
  \<^verbatim>\<open>customers.create\<close>, with the email of the request and with its description when
  that is truthy, and with \<^verbatim>\<open>Created via MCP\<close> when the description is missing or
  falsy; when the call returns a customer, the response is HTTP 200 with
  \<^verbatim>\<open>{success: true, customer}\<close>. For a create_customer request whose \<^verbatim>\<open>params\<close> is
  undefined or null, the handler issues no call and answers HTTP 500 with the message of
  the TypeError and the type \<^verbatim>\<open>api_error\<close>.
\<close>

theorem create_customer_forwards:
  assumes "stripe srv = Some c"
    and "method req = JStr ''create_customer''"
  shows "(\<forall>p. params req = Inr p \<longrightarrow>
            snd (snd (mcp eng srv req w)) =
              [(customers_create,
                JObj [(''email'', email p),
                      (''description'',
                       if truthy (description p) then description p
                       else JStr ''Created via MCP'')])]
            \<and> (\<forall>customer w'.
                  c customers_create (customer_arg p) w = (Inr customer, w') \<longrightarrow>
                  fst (mcp eng srv req w) =
                    \<lparr>status = 200,
                     body = JObj [(''success'', JBool True), (''customer'', customer)]\<rparr>))
         \<and> (\<forall>n. params req = Inl n \<longrightarrow>
              mcp eng srv req w =
                (\<lparr>status = 500,
                  body = JObj [(''error'', JStr (eng n ''email'')),
                               (''type'', JStr ''api_error'')]\<rparr>,
                 (w, [])))"
  using assms
  by (auto simp: mcp_def dispatch_def read_params_def type_error_def await_call_def
      customer_arg_def js_or_def split: prod.splits sum.splits)

theorem create_customer_forwards_witness:
  "snd (snd (mcp v8 configured
      \<lparr>method = JStr ''create_customer'',
       params = Inr (no_params\<lparr>email := JStr ''a@example.com'', description := JStr ''VIP''\<rparr>)\<rparr>
      [Inr (JObj [(''id'', JStr ''cus_1'')])])) =
     [(customers_create,
       JObj [(''email'', JStr ''a@example.com''), (''description'', JStr ''VIP'')])]
   \<and> fst (mcp v8 configured
      \<lparr>method = JStr ''create_customer'',
       params = Inr (no_params\<lparr>email := JStr ''a@example.com'', description := JStr ''VIP''\<rparr>)\<rparr>
      [Inr (JObj [(''id'', JStr ''cus_1'')])]) =
     \<lparr>status = 200,
      body = JObj [(''success'', JBool True), (''customer'', JObj [(''id'', JStr ''cus_1'')])]\<rparr>
   \<and> mcp v8 configured \<lparr>method = JStr ''create_customer'', params = Inl IsUndefined\<rparr>
      [Inr (JObj [(''id'', JStr ''cus_1'')])] =
     (\<lparr>status = 500,
       body = JObj [(''error'', JStr (v8 IsUndefined ''email'')),
                    (''type'', JStr ''api_error'')]\<rparr>,
      ([Inr (JObj [(''id'', JStr ''cus_1'')])], []))"
  using create_customer_forwards [of configured scripted_client
      "\<lparr>method = JStr ''create_customer'',
        params = Inr (no_params\<lparr>email := JStr ''a@example.com'', description := JStr ''VIP''\<rparr>)\<rparr>"
      v8 "[Inr (JObj [(''id'', JStr ''cus_1'')])]"]
    create_customer_forwards [of configured scripted_client
      "\<lparr>method = JStr ''create_customer'', params = Inl IsUndefined\<rparr>"
      v8 "[Inr (JObj [(''id'', JStr ''cus_1'')])]"]
  by (simp add: stripe_configured no_params_def customer_arg_def js_or_def)

text \<open>
  C8 as the specification words it does not hold. A description that is given and is the
  empty string is not forwarded; and a create_customer request without \<^verbatim>\<open>params\<close>
  forwards nothing: no call is issued.
\<close>

theorem create_customer_empty_description_counterexample:
  "snd (snd (mcp v8 configured
      \<lparr>method = JStr ''create_customer'',
       params = Inr (no_params\<lparr>email := JStr ''a@example.com'', description := JStr []\<rparr>)\<rparr>
      [])) =
     [(customers_create,
       JObj [(''email'', JStr ''a@example.com''), (''description'', JStr ''Created via MCP'')])]
   \<and> snd (snd (mcp v8 configured
      \<lparr>method = JStr ''create_customer'',
       params = Inr (no_params\<lparr>email := JStr ''a@example.com'', description := JStr []\<rparr>)\<rparr>
      [])) \<noteq>
     [(customers_create,
       JObj [(''email'', JStr ''a@example.com''), (''description'', JStr [])])]
   \<and> snd (snd (mcp v8 configured
      \<lparr>method = JStr ''create_customer'', params = Inl IsUndefined\<rparr> [])) = []
   \<and> status (fst (mcp v8 configured
      \<lparr>method = JStr ''create_customer'', params = Inl IsUndefined\<rparr> [])) = 500"
  by (simp add: mcp_def stripe_configured dispatch_def read_params_def type_error_def
      await_call_def customer_arg_def js_or_def no_params_def)

section \<open>The default currency\<close>



section \<open>A falsy description\<close>

text \<open>
  C10. For a create_customer request with the client set and a description that is falsy
  (the empty string, null, false, zero, NaN or undefined), the handler forwards
  \<^verbatim>\<open>Created via MCP\<close> as the description, and the whole outcome is the one of the same
  request without a description.
\<close>

theorem falsy_description_defaulted:
  assumes "stripe srv = Some c"
    and "method req = JStr ''create_customer''"
    and "params req = Inr p"
    and "\<not> truthy (description p)"
  shows "snd (snd (mcp eng srv req w)) =
           [(customers_create,
             JObj [(''email'', email p), (''description'', JStr ''Created via MCP'')])]
         \<and> mcp eng srv req w =
             mcp eng srv (req\<lparr>params := Inr (p\<lparr>description := JUndefined\<rparr>)\<rparr>) w"
  using assms
  by (simp add: mcp_def dispatch_def read_params_def await_call_def customer_arg_def js_or_def
      split: prod.splits sum.splits)

theorem falsy_description_defaulted_witness:
  "snd (snd (mcp v8 configured
      \<lparr>method = JStr ''create_customer'',
       params = Inr (no_params\<lparr>email := JStr ''a@example.com'', description := JStr []\<rparr>)\<rparr>
      [])) =
     [(customers_create,
       JObj [(''email'', JStr ''a@example.com''), (''description'', JStr ''Created via MCP'')])]"
  using falsy_description_defaulted [of configured scripted_client
      "\<lparr>method = JStr ''create_customer'',
        params = Inr (no_params\<lparr>email := JStr ''a@example.com'', description := JStr []\<rparr>)\<rparr>"
      "no_params\<lparr>email := JStr ''a@example.com'', description := JStr []\<rparr>" v8 "[]",
      THEN conjunct1]
  by (simp add: stripe_configured no_params_def)

end
